theory Spec2Isabelle
  imports Main "HOL-Library.Word" "HOL-Library.Signed_Division"
begin

section \<open>contiguous-view.h: a non-owning view of a contiguous run of elements\<close>

text \<open>
  The header declares one class template, \<^verbatim>\<open>contiguous_view<T, Extent>\<close>, and its
  helper \<^verbatim>\<open>details::storage<Size>\<close>. The embedding below fixes a platform where
  \<^verbatim>\<open>size_t\<close> and object pointers are 64 bits wide:

  \<^item> \<^verbatim>\<open>size_t\<close> is a 64-bit word, so \<open>+\<close>, \<open>-\<close> and \<open>*\<close> wrap as unsigned arithmetic does;
  \<^item> a \<^verbatim>\<open>T*\<close> is the byte address it holds; adding \<open>n\<close> to it moves the address by
    \<^verbatim>\<open>sizeof(T)\<close> times \<open>n\<close>. \<^verbatim>\<open>sizeof(T)\<close> is a parameter of every operation
    that needs it;
  \<^item> a reference \<^verbatim>\<open>T&\<close> is the address of the element it designates;
  \<^item> the template argument \<^verbatim>\<open>Extent\<close> is a value, passed to the constructors and
    recorded in the storage of the view they build;
  \<^item> \<^verbatim>\<open>assert\<close> is enabled (no \<^verbatim>\<open>NDEBUG\<close>): a failed assertion halts the program,
    which is the result \<open>Inl Assertion_failed\<close>; a failed \<^verbatim>\<open>static_assert\<close>
    or a constructor removed by \<^verbatim>\<open>enable_if\<close> is \<open>Inl Ill_formed\<close>.
\<close>

type_synonym size_t = "64 word"
type_synonym pointer = "64 word"

datatype error = Assertion_failed | Ill_formed

definition dynamic_extent :: size_t where
  "dynamic_extent = - 1"

definition nullptr :: pointer where
  "nullptr = 0"

subsection \<open>Pointer arithmetic\<close>

definition ptr_add :: "size_t \<Rightarrow> pointer \<Rightarrow> size_t \<Rightarrow> pointer" where
  "ptr_add sizeof_T p n = p + sizeof_T * n"

definition ptr_sub :: "size_t \<Rightarrow> pointer \<Rightarrow> size_t \<Rightarrow> pointer" where
  "ptr_sub sizeof_T p n = p - sizeof_T * n"

text \<open>
  \<^verbatim>\<open>static_cast<size_t>(last - first)\<close>: the signed distance in bytes, divided by the
  element size with truncation, read back as an unsigned value.
\<close>

definition ptr_diff :: "size_t \<Rightarrow> pointer \<Rightarrow> pointer \<Rightarrow> size_t" where
  "ptr_diff sizeof_T last_p first_p = word_of_int (sint (last_p - first_p) sdiv uint sizeof_T)"

subsection \<open>details::storage\<close>

text \<open>
  \<^verbatim>\<open>storage<Size>\<close> has no field and its constructor ignores its argument;
  the specialisation \<^verbatim>\<open>storage<dynamic_extent>\<close> keeps the count in \<^verbatim>\<open>_size\<close>.
\<close>

datatype storage = Static_storage size_t | Dynamic_storage size_t

definition storage_ctor :: "size_t \<Rightarrow> size_t \<Rightarrow> storage" where
  "storage_ctor Size count =
     (if Size = dynamic_extent then Dynamic_storage count else Static_storage Size)"

fun storage_size :: "storage \<Rightarrow> size_t" where
  "storage_size (Static_storage Size) = Size"
| "storage_size (Dynamic_storage sz) = sz"

subsection \<open>contiguous_view\<close>

record contiguous_view =
  st :: storage
  p_data :: pointer

text \<open>The template argument \<^verbatim>\<open>Extent\<close> of the type of a view.\<close>

definition extent_of :: "contiguous_view \<Rightarrow> size_t" where
  "extent_of v = (case st v of Static_storage Size \<Rightarrow> Size | Dynamic_storage _ \<Rightarrow> dynamic_extent)"

text \<open>\<^verbatim>\<open>contiguous_view()\<close>\<close>

definition ctor_default :: "size_t \<Rightarrow> contiguous_view" where
  "ctor_default Extent = \<lparr>st = storage_ctor Extent 0, p_data = nullptr\<rparr>"

text \<open>\<^verbatim>\<open>contiguous_view(It first, size_t count)\<close>\<close>

definition ctor_count :: "size_t \<Rightarrow> pointer \<Rightarrow> size_t \<Rightarrow> error + contiguous_view" where
  "ctor_count Extent first_p count =
     (let v = \<lparr>st = storage_ctor Extent count, p_data = first_p\<rparr>
      in if Extent \<noteq> dynamic_extent
         then (if count = Extent then Inr v else Inl Assertion_failed)
         else Inr v)"

text \<open>
  \<^verbatim>\<open>contiguous_view(It first, It last)\<close>: the delegated constructor runs first, then the
  body asserts the order of the two markers.
\<close>

definition ctor_range :: "size_t \<Rightarrow> size_t \<Rightarrow> pointer \<Rightarrow> pointer \<Rightarrow> error + contiguous_view" where
  "ctor_range sizeof_T Extent first_p last_p =
     (case ctor_count Extent first_p (ptr_diff sizeof_T last_p first_p) of
        Inl e \<Rightarrow> Inl e
      | Inr v \<Rightarrow> if first_p \<le> last_p then Inr v else Inl Assertion_failed)"

definition data :: "contiguous_view \<Rightarrow> pointer" where
  "data v = p_data v"

definition size_cv :: "contiguous_view \<Rightarrow> size_t" where
  "size_cv v = storage_size (st v)"

definition size_bytes :: "size_t \<Rightarrow> contiguous_view \<Rightarrow> size_t" where
  "size_bytes sizeof_T v = sizeof_T * size_cv v"

text \<open>
  \<^verbatim>\<open>contiguous_view(const contiguous_view<U, N>& other)\<close>, which takes part in overload
  resolution only when one of the extents is dynamic or both are equal.
\<close>

definition ctor_convert :: "size_t \<Rightarrow> contiguous_view \<Rightarrow> error + contiguous_view" where
  "ctor_convert Extent other =
     (if Extent = dynamic_extent \<or> extent_of other = dynamic_extent \<or> Extent = extent_of other
      then ctor_count Extent (data other) (size_cv other)
      else Inl Ill_formed)"

definition empty_cv :: "contiguous_view \<Rightarrow> bool" where
  "empty_cv v \<longleftrightarrow> size_cv v = 0"

definition begin_cv :: "contiguous_view \<Rightarrow> pointer" where
  "begin_cv v = data v"

definition cbegin :: "contiguous_view \<Rightarrow> pointer" where
  "cbegin v = data v"

definition end_cv :: "size_t \<Rightarrow> contiguous_view \<Rightarrow> pointer" where
  "end_cv sizeof_T v = ptr_add sizeof_T (begin_cv v) (size_cv v)"

definition cend :: "size_t \<Rightarrow> contiguous_view \<Rightarrow> pointer" where
  "cend sizeof_T v = ptr_add sizeof_T (begin_cv v) (size_cv v)"

text \<open>\<^verbatim>\<open>operator[]\<close>, \<^verbatim>\<open>front\<close> and \<^verbatim>\<open>back\<close> return the address of the element.\<close>

definition index_op :: "size_t \<Rightarrow> contiguous_view \<Rightarrow> size_t \<Rightarrow> error + pointer" where
  "index_op sizeof_T v idx =
     (if idx < size_cv v then Inr (ptr_add sizeof_T (data v) idx) else Inl Assertion_failed)"

definition front :: "contiguous_view \<Rightarrow> pointer" where
  "front v = begin_cv v"

definition back_cv :: "size_t \<Rightarrow> contiguous_view \<Rightarrow> pointer" where
  "back_cv sizeof_T v = ptr_sub sizeof_T (end_cv sizeof_T v) 1"

text \<open>\<^verbatim>\<open>subview(size_t offset, size_t count = dynamic_extent)\<close>\<close>

definition subview :: "size_t \<Rightarrow> contiguous_view \<Rightarrow> size_t \<Rightarrow> size_t \<Rightarrow> error + contiguous_view" where
  "subview sizeof_T v offset count =
     (if offset \<le> size_cv v \<and> (count = dynamic_extent \<or> count \<le> size_cv v - offset)
      then ctor_count dynamic_extent (ptr_add sizeof_T (data v) offset)
             (if count = dynamic_extent then size_cv v - offset else count)
      else Inl Assertion_failed)"

text \<open>The call \<^verbatim>\<open>subview(offset)\<close>, with the default argument filled in.\<close>

definition subview_rest :: "size_t \<Rightarrow> contiguous_view \<Rightarrow> size_t \<Rightarrow> error + contiguous_view" where
  "subview_rest sizeof_T v offset = subview sizeof_T v offset dynamic_extent"

text \<open>\<^verbatim>\<open>subview<Offset, Count>()\<close>\<close>

definition subview_static :: "size_t \<Rightarrow> size_t \<Rightarrow> size_t \<Rightarrow> contiguous_view \<Rightarrow> error + contiguous_view" where
  "subview_static sizeof_T Offset Count v =
     (let Extent = extent_of v;
          construct =
            (if Count = dynamic_extent
             then (if Extent = dynamic_extent
                   then ctor_count dynamic_extent (ptr_add sizeof_T (data v) Offset) (size_cv v - Offset)
                   else ctor_count (Extent - Offset) (ptr_add sizeof_T (data v) Offset) (size_cv v - Offset))
             else ctor_count Count (ptr_add sizeof_T (data v) Offset) Count)
      in if Extent \<noteq> dynamic_extent
         then (if Offset \<le> Extent \<and> (Count = dynamic_extent \<or> Count \<le> Extent - Offset)
               then construct else Inl Ill_formed)
         else (if Offset \<le> size_cv v \<and> (Count = dynamic_extent \<or> Count \<le> size_cv v - Offset)
               then construct else Inl Assertion_failed))"

text \<open>\<^verbatim>\<open>first<Count>()\<close> and \<^verbatim>\<open>first(size_t count)\<close>\<close>

definition first_static :: "size_t \<Rightarrow> contiguous_view \<Rightarrow> error + contiguous_view" where
  "first_static Count v =
     (if extent_of v \<noteq> dynamic_extent
      then (if Count \<le> extent_of v then ctor_count Count (begin_cv v) Count else Inl Ill_formed)
      else (if Count \<le> size_cv v then ctor_count Count (begin_cv v) Count else Inl Assertion_failed))"

definition first :: "contiguous_view \<Rightarrow> size_t \<Rightarrow> error + contiguous_view" where
  "first v count =
     (if count \<le> size_cv v then ctor_count dynamic_extent (begin_cv v) count
      else Inl Assertion_failed)"

text \<open>\<^verbatim>\<open>last<Count>()\<close> and \<^verbatim>\<open>last(size_t count)\<close>\<close>

definition last_static :: "size_t \<Rightarrow> size_t \<Rightarrow> contiguous_view \<Rightarrow> error + contiguous_view" where
  "last_static sizeof_T Count v =
     (if extent_of v \<noteq> dynamic_extent
      then (if Count \<le> extent_of v
            then ctor_count Count (ptr_sub sizeof_T (end_cv sizeof_T v) Count) Count
            else Inl Ill_formed)
      else (if Count \<le> size_cv v
            then ctor_count Count (ptr_sub sizeof_T (end_cv sizeof_T v) Count) Count
            else Inl Assertion_failed))"

definition last_cv :: "size_t \<Rightarrow> contiguous_view \<Rightarrow> size_t \<Rightarrow> error + contiguous_view" where
  "last_cv sizeof_T v count =
     (if count \<le> size_cv v
      then ctor_count dynamic_extent (ptr_sub sizeof_T (end_cv sizeof_T v) count) count
      else Inl Assertion_failed)"

text \<open>
  \<^verbatim>\<open>as_bytes()\<close>: \<^verbatim>\<open>sizeof(std::byte)\<close> is 1, and \<^verbatim>\<open>reinterpret_cast\<close> keeps the
  address.
\<close>

definition sizeof_byte :: size_t where
  "sizeof_byte = 1"

definition as_bytes_return_size :: "size_t \<Rightarrow> size_t \<Rightarrow> size_t" where
  "as_bytes_return_size sizeof_T Extent =
     (if Extent = dynamic_extent then dynamic_extent else sizeof_T div sizeof_byte * Extent)"

definition as_bytes :: "size_t \<Rightarrow> contiguous_view \<Rightarrow> error + contiguous_view" where
  "as_bytes sizeof_T v =
     ctor_count (as_bytes_return_size sizeof_T (extent_of v)) (data v) (size_bytes sizeof_T v)"

subsection \<open>Calls of the member functions on an object\<close>

text \<open>
  Every member function above is declared \<^verbatim>\<open>const\<close>, the class has no
  \<^verbatim>\<open>mutable\<close> member, and no body assigns to \<^verbatim>\<open>st\<close> or \<^verbatim>\<open>_data\<close>.
  A call is modelled with the object passed through: \<open>invoke\<close> gives the value the call
  returns (or the failure that halts it) and the object as it is after the call.
\<close>

datatype member_fn =
    Call_data | Call_size | Call_size_bytes | Call_empty | Call_begin | Call_end | Call_cbegin | Call_cend
  | Call_index size_t | Call_front | Call_back
  | Call_subview size_t size_t | Call_subview_static size_t size_t
  | Call_first size_t | Call_first_static size_t
  | Call_last size_t | Call_last_static size_t
  | Call_as_bytes

datatype outcome =
    Pointer pointer | Number size_t | Truth bool | Reference pointer
  | View contiguous_view | Halted error

definition view_outcome :: "error + contiguous_view \<Rightarrow> outcome" where
  "view_outcome r = (case r of Inl e \<Rightarrow> Halted e | Inr u \<Rightarrow> View u)"

definition reference_outcome :: "error + pointer \<Rightarrow> outcome" where
  "reference_outcome r = (case r of Inl e \<Rightarrow> Halted e | Inr p \<Rightarrow> Reference p)"

fun invoke :: "size_t \<Rightarrow> member_fn \<Rightarrow> contiguous_view \<Rightarrow> outcome \<times> contiguous_view" where
  "invoke sizeof_T Call_data v = (Pointer (data v), v)"
| "invoke sizeof_T Call_size v = (Number (size_cv v), v)"
| "invoke sizeof_T Call_size_bytes v = (Number (size_bytes sizeof_T v), v)"
| "invoke sizeof_T Call_empty v = (Truth (empty_cv v), v)"
| "invoke sizeof_T Call_begin v = (Pointer (begin_cv v), v)"
| "invoke sizeof_T Call_end v = (Pointer (end_cv sizeof_T v), v)"
| "invoke sizeof_T Call_cbegin v = (Pointer (cbegin v), v)"
| "invoke sizeof_T Call_cend v = (Pointer (cend sizeof_T v), v)"
| "invoke sizeof_T (Call_index idx) v = (reference_outcome (index_op sizeof_T v idx), v)"
| "invoke sizeof_T Call_front v = (Reference (front v), v)"
| "invoke sizeof_T Call_back v = (Reference (back_cv sizeof_T v), v)"
| "invoke sizeof_T (Call_subview offset count) v = (view_outcome (subview sizeof_T v offset count), v)"
| "invoke sizeof_T (Call_subview_static Offset Count) v =
     (view_outcome (subview_static sizeof_T Offset Count v), v)"
| "invoke sizeof_T (Call_first count) v = (view_outcome (first v count), v)"
| "invoke sizeof_T (Call_first_static Count) v = (view_outcome (first_static Count v), v)"
| "invoke sizeof_T (Call_last count) v = (view_outcome (last_cv sizeof_T v count), v)"
| "invoke sizeof_T (Call_last_static Count) v = (view_outcome (last_static sizeof_T Count v), v)"
| "invoke sizeof_T Call_as_bytes v = (view_outcome (as_bytes sizeof_T v), v)"

subsection \<open>A view used in the examples\<close>

text \<open>
  A dynamic-extent view of five 4-byte elements that start at address 4096, as
  \<^verbatim>\<open>contiguous_view<int>(p, 5)\<close> builds it.
\<close>

definition five_ints :: contiguous_view where
  "five_ints = \<lparr>st = Dynamic_storage 5, p_data = 4096\<rparr>"

section \<open>Properties\<close>

lemma storage_size_ctor:
  "storage_size (storage_ctor Size count) = (if Size = dynamic_extent then count else Size)"
  by (simp add: storage_ctor_def)

lemma ctor_count_dynamic:
  "ctor_count dynamic_extent p n = Inr \<lparr>st = Dynamic_storage n, p_data = p\<rparr>"
  by (simp add: ctor_count_def storage_ctor_def)

lemma ctor_count_static:
  "Extent \<noteq> dynamic_extent \<Longrightarrow>
   ctor_count Extent p n =
     (if n = Extent then Inr \<lparr>st = Static_storage Extent, p_data = p\<rparr> else Inl Assertion_failed)"
  by (simp add: ctor_count_def storage_ctor_def)

lemma size_cv_simps [simp]:
  "size_cv \<lparr>st = Dynamic_storage n, p_data = p\<rparr> = n"
  "size_cv \<lparr>st = Static_storage n, p_data = p\<rparr> = n"
  by (simp_all add: size_cv_def)

lemma data_simp [simp]: "data \<lparr>st = s, p_data = p\<rparr> = p"
  by (simp add: data_def)

lemma extent_of_simps [simp]:
  "extent_of \<lparr>st = Dynamic_storage n, p_data = p\<rparr> = dynamic_extent"
  "extent_of \<lparr>st = Static_storage n, p_data = p\<rparr> = n"
  by (simp_all add: extent_of_def)

lemma dynamic_extent_neq [simp]:
  "dynamic_extent \<noteq> 0" "dynamic_extent \<noteq> 1" "dynamic_extent \<noteq> 2" "dynamic_extent \<noteq> 3"
  "dynamic_extent \<noteq> 4" "dynamic_extent \<noteq> 5" "dynamic_extent \<noteq> 20"
  "0 \<noteq> dynamic_extent" "1 \<noteq> dynamic_extent" "2 \<noteq> dynamic_extent" "3 \<noteq> dynamic_extent"
  "4 \<noteq> dynamic_extent" "5 \<noteq> dynamic_extent" "20 \<noteq> dynamic_extent"
  by (simp_all add: dynamic_extent_def)

subsection \<open>Construction from a location and a count\<close>

text \<open>
  C1. A pair \<open>(location, count)\<close> is accepted when the extent is dynamic or the count is
  the static extent. The view built from it has \<open>data\<close> equal to the location,
  \<open>size\<close> equal to the count, and \<open>size_bytes\<close> equal to the element size times the
  count: as \<^verbatim>\<open>size_t\<close> values always, and as numbers whenever that many bytes fit in
  the address space.
\<close>

theorem ctor_count_accessors:
  "Extent = dynamic_extent \<or> count = Extent \<Longrightarrow>
   \<exists>v. ctor_count Extent location count = Inr v \<and> data v = location \<and> size_cv v = count \<and>
       size_bytes sizeof_T v = sizeof_T * count \<and>
       (unat sizeof_T * unat count < 2 ^ 64 \<longrightarrow>
          unat (size_bytes sizeof_T v) = unat count * unat sizeof_T)"
  by (auto simp: ctor_count_def storage_ctor_def data_def size_cv_def size_bytes_def Let_def
        unat_word_ariths)

theorem ctor_count_accessors_witness:
  "(dynamic_extent = dynamic_extent \<or> (5::size_t) = dynamic_extent) \<and>
   unat (4::size_t) * unat (5::size_t) < 2 ^ 64 \<and>
   (\<exists>v. ctor_count dynamic_extent 4096 5 = Inr v \<and> data v = 4096 \<and> size_cv v = 5 \<and>
       size_bytes 4 v = 20 \<and> unat (size_bytes 4 v) = 20)"
  using ctor_count_accessors [of dynamic_extent 5 4096 4] by simp

subsection \<open>Static extents\<close>

lemma ctor_convert_from_dynamic:
  "extent_of v = dynamic_extent \<Longrightarrow> Extent \<noteq> dynamic_extent \<Longrightarrow>
   ctor_convert Extent v =
     (if size_cv v = Extent then Inr \<lparr>st = Static_storage Extent, p_data = data v\<rparr>
      else Inl Assertion_failed)"
  by (simp add: ctor_convert_def ctor_count_static)

text \<open>
  C3. A dynamic-extent view of five elements converts to a view of static extent 5, with
  the same \<open>data\<close> and \<open>size\<close>; converting it to static extent 4 fails the assertion
  of the constructor. In general the constructor from a location and a count, at a static
  extent, succeeds exactly when the count is the extent, and fails the assertion otherwise.
\<close>

theorem convert_static_extent:
  "(extent_of v = dynamic_extent \<and> size_cv v = 5 \<longrightarrow>
      (\<exists>u. ctor_convert 5 v = Inr u \<and> data u = data v \<and> size_cv u = size_cv v \<and> extent_of u = 5) \<and>
      ctor_convert 4 v = Inl Assertion_failed) \<and>
   (Extent \<noteq> dynamic_extent \<longrightarrow>
      ctor_count Extent p count =
        (if count = Extent then Inr \<lparr>st = Static_storage Extent, p_data = p\<rparr>
         else Inl Assertion_failed))"
  by (simp add: ctor_convert_from_dynamic ctor_count_static)

theorem convert_static_extent_witness:
  "extent_of five_ints = dynamic_extent \<and> size_cv five_ints = 5 \<and> (5::size_t) \<noteq> dynamic_extent \<and>
   (4::size_t) \<noteq> dynamic_extent \<and>
   (\<exists>u. ctor_convert 5 five_ints = Inr u \<and> data u = data five_ints \<and> size_cv u = 5 \<and> extent_of u = 5) \<and>
   ctor_convert 4 five_ints = Inl Assertion_failed \<and>
   ctor_count 5 4096 5 = Inr \<lparr>st = Static_storage 5, p_data = 4096\<rparr> \<and>
   ctor_count 4 4096 5 = Inl Assertion_failed"
  using convert_static_extent [of five_ints 5 4096 5] convert_static_extent [of five_ints 4 4096 5]
  by (simp add: five_ints_def)

lemma ctor_count_Inr_size:
  "Extent \<noteq> dynamic_extent \<Longrightarrow> ctor_count Extent p n = Inr u \<Longrightarrow>
   size_cv u = Extent \<and> extent_of u = Extent"
  by (auto simp: ctor_count_static split: if_splits)

text \<open>
  The size of a view of static extent is the extent, whichever constructor built it and
  whatever count it was given. On every path that takes a count from the caller (the
  constructor from a location and a count, and the range and converting constructors that
  go through it) a count other than the extent fails the assertion.
\<close>

lemma static_extent_size:
  "(extent_of v \<noteq> dynamic_extent \<longrightarrow> size_cv v = extent_of v) \<and>
   (Extent \<noteq> dynamic_extent \<longrightarrow>
      storage_size (storage_ctor Extent count) = Extent \<and>
      size_cv (ctor_default Extent) = Extent \<and>
      (\<forall>u. ctor_count Extent p count = Inr u \<longrightarrow> size_cv u = Extent) \<and>
      (\<forall>u. ctor_range sizeof_T Extent p q = Inr u \<longrightarrow> size_cv u = Extent) \<and>
      (\<forall>u. ctor_convert Extent other = Inr u \<longrightarrow> size_cv u = Extent) \<and>
      ctor_count Extent p count =
        (if count = Extent then Inr \<lparr>st = Static_storage Extent, p_data = p\<rparr>
         else Inl Assertion_failed))"
proof (intro conjI impI allI)
  assume "extent_of v \<noteq> dynamic_extent"
  then show "size_cv v = extent_of v"
    by (simp add: extent_of_def size_cv_def split: storage.splits)
next
  assume "Extent \<noteq> dynamic_extent"
  then show "storage_size (storage_ctor Extent count) = Extent"
    by (simp add: storage_ctor_def)
next
  assume "Extent \<noteq> dynamic_extent"
  then show "size_cv (ctor_default Extent) = Extent"
    by (simp add: ctor_default_def storage_ctor_def)
next
  fix u assume "Extent \<noteq> dynamic_extent" "ctor_count Extent p count = Inr u"
  then show "size_cv u = Extent" by (simp add: ctor_count_Inr_size)
next
  fix u assume "Extent \<noteq> dynamic_extent" "ctor_range sizeof_T Extent p q = Inr u"
  then show "size_cv u = Extent"
    by (auto simp: ctor_range_def ctor_count_Inr_size split: sum.splits if_splits)
next
  fix u assume "Extent \<noteq> dynamic_extent" "ctor_convert Extent other = Inr u"
  then show "size_cv u = Extent"
    by (auto simp: ctor_convert_def ctor_count_Inr_size split: if_splits)
next
  assume "Extent \<noteq> dynamic_extent"
  then show "ctor_count Extent p count =
        (if count = Extent then Inr \<lparr>st = Static_storage Extent, p_data = p\<rparr>
         else Inl Assertion_failed)"
    by (rule ctor_count_static)
qed

lemma static_extent_size_example:
  "extent_of \<lparr>st = Static_storage 5, p_data = 4096\<rparr> \<noteq> dynamic_extent \<and>
   size_cv \<lparr>st = Static_storage 5, p_data = 4096\<rparr> = 5 \<and>
   (5::size_t) \<noteq> dynamic_extent \<and>
   storage_size (storage_ctor 5 3) = 5 \<and>
   size_cv (ctor_default 5) = 5 \<and>
   ctor_count 5 4096 3 = Inl Assertion_failed \<and>
   ctor_count 5 4096 5 = Inr \<lparr>st = Static_storage 5, p_data = 4096\<rparr> \<and>
   ctor_range 4 5 4096 4116 = Inr \<lparr>st = Static_storage 5, p_data = 4096\<rparr> \<and>
   ctor_convert 5 five_ints = Inr \<lparr>st = Static_storage 5, p_data = 4096\<rparr>"
  using static_extent_size [of "\<lparr>st = Static_storage 5, p_data = 4096\<rparr>" 5 3 4096 4 4116 five_ints]
    static_extent_size [of "\<lparr>st = Static_storage 5, p_data = 4096\<rparr>" 5 5 4096 4 4116 five_ints]
  by (simp add: ctor_range_def ptr_diff_def ctor_convert_def five_ints_def)

text \<open>
  C4. The default constructor passes the count 0 to the storage and asserts nothing. At
  the static extent 5 it builds a view of size 5 on the null address, on which
  \<^verbatim>\<open>operator[]\<close> passes its own assertion at index 0, while the constructor from
  a location and a count halts on the same null address and count 0.
\<close>

theorem ctor_default_static_unchecked:
  "(0::size_t) \<noteq> 5 \<and> (5::size_t) \<noteq> dynamic_extent \<and>
   storage_ctor 5 0 = Static_storage 5 \<and>
   ctor_default 5 = \<lparr>st = Static_storage 5, p_data = nullptr\<rparr> \<and>
   size_cv (ctor_default 5) = 5 \<and> data (ctor_default 5) = nullptr \<and>
   index_op 4 (ctor_default 5) 0 = Inr nullptr \<and>
   ctor_count 5 nullptr 0 = Inl Assertion_failed"
  by (simp add: storage_ctor_def ctor_default_def index_op_def ptr_add_def nullptr_def
      ctor_count_def)

subsection \<open>front and back\<close>

text \<open>
  On a view that is not empty, \<open>front\<close> and \<open>back\<close> designate the elements that
  \<^verbatim>\<open>operator[]\<close> gives at index 0 and at index \<open>size - 1\<close>.
\<close>

lemma front_back_nonempty:
  assumes "\<not> empty_cv v"
  shows "index_op sz v 0 = Inr (front v)" and "index_op sz v (size_cv v - 1) = Inr (back_cv sz v)"
proof -
  from assms have "size_cv v \<noteq> 0" by (simp add: empty_cv_def)
  then have "0 < size_cv v" and "size_cv v - 1 < size_cv v"
    by unat_arith+
  then show "index_op sz v 0 = Inr (front v)" and "index_op sz v (size_cv v - 1) = Inr (back_cv sz v)"
    by (simp_all add: index_op_def front_def back_cv_def begin_cv_def end_cv_def ptr_add_def
        ptr_sub_def algebra_simps)
qed

text \<open>
  C2. Neither \<^verbatim>\<open>front()\<close> nor \<^verbatim>\<open>back()\<close> contains an assertion. On the empty view
  that default construction gives, \<open>front\<close> designates the null address and \<open>back\<close>
  the address one 4-byte element below it, and the call is not halted, while
  \<^verbatim>\<open>operator[]\<close> on the same view is halted by its assertion.
\<close>

theorem front_back_unchecked:
  "front (ctor_default dynamic_extent) = nullptr \<and>
   back_cv 4 (ctor_default dynamic_extent) = nullptr - 4 \<and>
   empty_cv (ctor_default dynamic_extent) \<and>
   index_op 4 (ctor_default dynamic_extent) 0 = Inl Assertion_failed \<and>
   invoke 4 Call_front (ctor_default dynamic_extent) = (Reference nullptr, ctor_default dynamic_extent) \<and>
   invoke 4 Call_back (ctor_default dynamic_extent) = (Reference (nullptr - 4), ctor_default dynamic_extent) \<and>
   invoke 4 (Call_index 0) (ctor_default dynamic_extent) = (Halted Assertion_failed, ctor_default dynamic_extent)"
  by (simp add: front_def back_cv_def begin_cv_def end_cv_def ptr_add_def ptr_sub_def
      ctor_default_def storage_ctor_def empty_cv_def index_op_def reference_outcome_def)

subsection \<open>Sub-ranges\<close>

lemma subview_Inr:
  "subview sz v a b = Inr u \<longleftrightarrow>
     a \<le> size_cv v \<and> (b = dynamic_extent \<or> b \<le> size_cv v - a) \<and>
     u = \<lparr>st = Dynamic_storage (if b = dynamic_extent then size_cv v - a else b),
          p_data = ptr_add sz (data v) a\<rparr>"
  by (auto simp: subview_def ctor_count_dynamic)

lemma ptr_add_add: "ptr_add sz (ptr_add sz p a) c = ptr_add sz p (a + c)"
  by (simp add: ptr_add_def algebra_simps)

lemma word_offsets_compose:
  fixes a c s :: size_t
  assumes "a \<le> s" and "c \<le> s - a"
  shows "a + c \<le> s" and "s - a - c = s - (a + c)"
  using assms by unat_arith+

lemma word_counts_compose:
  fixes a c d n s :: size_t
  assumes "a \<le> s" and "n \<le> s - a" and "c \<le> n" and "d \<le> n - c"
  shows "d \<le> s - (a + c)"
  using assms by unat_arith

text \<open>
  C5, as the header has it. When \<open>v.subview(a, b).subview(c, d)\<close> passes its assertions,
  and \<open>d\<close> is a count rather than the sentinel \<open>dynamic_extent\<close> (or, with the sentinel,
  \<open>subview(a, b)\<close> runs to the end of \<open>v\<close>), then \<open>v.subview(a + c, d)\<close> passes its
  assertion too and is the same view: same \<open>data\<close>, same \<open>size\<close>.
\<close>

theorem subview_compose:
  assumes "subview sz v a b = Inr u" and "subview sz u c d = Inr w"
    and "d = dynamic_extent \<longrightarrow> b = dynamic_extent \<or> b = size_cv v - a"
  shows "subview sz v (a + c) d = Inr w"
proof -
  define n where "n = (if b = dynamic_extent then size_cv v - a else b)"
  from assms(1) have a: "a \<le> size_cv v" and n: "n \<le> size_cv v - a"
    and u: "u = \<lparr>st = Dynamic_storage n, p_data = ptr_add sz (data v) a\<rparr>"
    by (auto simp: subview_Inr n_def)
  from assms(2) u have c: "c \<le> n" and d: "d = dynamic_extent \<or> d \<le> n - c"
    and w: "w = \<lparr>st = Dynamic_storage (if d = dynamic_extent then n - c else d),
                 p_data = ptr_add sz (data v) (a + c)\<rparr>"
    by (auto simp: subview_Inr ptr_add_add)
  from c n have "c \<le> size_cv v - a" by simp
  with a have ac: "a + c \<le> size_cv v" by (rule word_offsets_compose(1))
  show ?thesis
  proof (cases "d = dynamic_extent")
    case True
    with assms(3) have "n = size_cv v - a" by (auto simp: n_def)
    with a c have "n - c = size_cv v - (a + c)"
      by (simp add: word_offsets_compose(2))
    with True ac w show ?thesis by (simp add: subview_Inr)
  next
    case False
    with d have "d \<le> n - c" by simp
    with a n c have "d \<le> size_cv v - (a + c)" by (rule word_counts_compose)
    with False ac w show ?thesis by (simp add: subview_Inr)
  qed
qed

theorem subview_compose_witness:
  "subview 4 five_ints 1 3 = Inr \<lparr>st = Dynamic_storage 3, p_data = 4100\<rparr> \<and>
   subview 4 \<lparr>st = Dynamic_storage 3, p_data = 4100\<rparr> 1 2 = Inr \<lparr>st = Dynamic_storage 2, p_data = 4104\<rparr> \<and>
   (2::size_t) \<noteq> dynamic_extent \<and>
   subview 4 five_ints (1 + 1) 2 = Inr \<lparr>st = Dynamic_storage 2, p_data = 4104\<rparr>"
proof -
  have 1: "subview 4 five_ints 1 3 = Inr \<lparr>st = Dynamic_storage 3, p_data = 4100\<rparr>"
    by (simp add: subview_Inr five_ints_def ptr_add_def dynamic_extent_def)
  have 2: "subview 4 \<lparr>st = Dynamic_storage 3, p_data = 4100\<rparr> 1 2 = Inr \<lparr>st = Dynamic_storage 2, p_data = 4104\<rparr>"
    by (simp add: subview_Inr ptr_add_def dynamic_extent_def)
  have 3: "(2::size_t) \<noteq> dynamic_extent"
    by simp
  then have "(2::size_t) = dynamic_extent \<longrightarrow> (3::size_t) = dynamic_extent \<or> 3 = size_cv five_ints - 1"
    by simp
  from subview_compose [OF 1 2 this] 1 2 3 show ?thesis by simp
qed

text \<open>
  C5, as the claim words it, fails when \<open>d\<close> is the sentinel. On the view of five
  elements, \<open>subview(1, 2).subview(1, dynamic_extent)\<close> is the one element left
  of the two, while \<open>subview(1 + 1, dynamic_extent)\<close> is the three elements left of the
  five; all the assertions pass.
\<close>

theorem subview_compose_counterexample:
  "subview 4 five_ints 1 2 = Inr \<lparr>st = Dynamic_storage 2, p_data = 4100\<rparr> \<and>
   subview 4 \<lparr>st = Dynamic_storage 2, p_data = 4100\<rparr> 1 dynamic_extent =
     Inr \<lparr>st = Dynamic_storage 1, p_data = 4104\<rparr> \<and>
   subview 4 five_ints (1 + 1) dynamic_extent = Inr \<lparr>st = Dynamic_storage 3, p_data = 4104\<rparr> \<and>
   size_cv \<lparr>st = Dynamic_storage 1, p_data = 4104\<rparr> \<noteq> size_cv \<lparr>st = Dynamic_storage 3, p_data = 4104\<rparr>"
  by (simp add: subview_Inr five_ints_def ptr_add_def dynamic_extent_def)

text \<open>
  C9. With an offset within the view and the sentinel \<open>dynamic_extent\<close> as count,
  \<open>subview\<close> returns the dynamic-extent view of the \<open>size - offset\<close> elements that
  start \<open>offset\<close> elements after \<open>data\<close>. The call that leaves the count out is the
  call that passes the sentinel, and the sentinel is the largest \<^verbatim>\<open>size_t\<close>.
\<close>

theorem subview_sentinel:
  "offset \<le> size_cv v \<Longrightarrow>
   subview sz v offset dynamic_extent =
     Inr \<lparr>st = Dynamic_storage (size_cv v - offset), p_data = ptr_add sz (data v) offset\<rparr> \<and>
   subview_rest sz v offset = subview sz v offset dynamic_extent \<and>
   unat dynamic_extent = 2 ^ 64 - 1"
  by (simp add: subview_def subview_rest_def ctor_count_dynamic)
     (simp add: dynamic_extent_def unsigned_minus_1_eq_mask mask_eq_exp_minus_1)

theorem subview_sentinel_witness:
  "(2::size_t) \<le> size_cv five_ints \<and>
   subview 4 five_ints 2 dynamic_extent = Inr \<lparr>st = Dynamic_storage 3, p_data = 4104\<rparr> \<and>
   subview_rest 4 five_ints 2 = Inr \<lparr>st = Dynamic_storage 3, p_data = 4104\<rparr>"
  using subview_sentinel [of 2 five_ints 4]
  by (simp add: five_ints_def ptr_add_def)

lemma word_suffix_index:
  fixes i n s :: size_t
  assumes "n \<le> s" and "i < n"
  shows "s - n + i < s" and "i < s"
  using assms by unat_arith+

text \<open>
  C6. For \<open>n\<close> at most the size of \<open>v\<close>, \<open>first\<close> and \<open>last\<close> succeed with
  dynamic-extent views of size \<open>n\<close>; the first starts at \<open>data v\<close>, the second
  \<open>size - n\<close> elements after it, and element \<open>i\<close> of each is the element of \<open>v\<close> at
  index \<open>i\<close>, respectively \<open>size - n + i\<close>.
\<close>

theorem first_last_views:
  assumes "n \<le> size_cv v"
  shows "\<exists>u w. first v n = Inr u \<and> last_cv sz v n = Inr w \<and>
           extent_of u = dynamic_extent \<and> size_cv u = n \<and> data u = data v \<and>
           extent_of w = dynamic_extent \<and> size_cv w = n \<and>
           data w = ptr_add sz (data v) (size_cv v - n) \<and>
           (\<forall>i. i < n \<longrightarrow> index_op sz u i = index_op sz v i \<and>
                            index_op sz w i = index_op sz v (size_cv v - n + i))"
proof -
  let ?u = "\<lparr>st = Dynamic_storage n, p_data = data v\<rparr>"
  let ?w = "\<lparr>st = Dynamic_storage n, p_data = ptr_add sz (data v) (size_cv v - n)\<rparr>"
  have u: "first v n = Inr ?u"
    using assms by (simp add: first_def ctor_count_dynamic begin_cv_def)
  have "ptr_sub sz (end_cv sz v) n = ptr_add sz (data v) (size_cv v - n)"
    by (simp add: ptr_sub_def ptr_add_def end_cv_def begin_cv_def algebra_simps)
  then have w: "last_cv sz v n = Inr ?w"
    using assms by (simp add: last_cv_def ctor_count_dynamic)
  have "index_op sz ?u i = index_op sz v i \<and> index_op sz ?w i = index_op sz v (size_cv v - n + i)"
    if "i < n" for i
    using word_suffix_index [OF assms that] that
    by (simp add: index_op_def ptr_add_def algebra_simps)
  with u w show ?thesis by simp
qed

theorem first_last_views_witness:
  "(2::size_t) \<le> size_cv five_ints \<and>
   (\<exists>u w. first five_ints 2 = Inr u \<and> last_cv 4 five_ints 2 = Inr w \<and>
      size_cv u = 2 \<and> data u = 4096 \<and> size_cv w = 2 \<and> data w = 4108 \<and>
      index_op 4 u 1 = Inr 4100 \<and> index_op 4 w 1 = Inr 4112)"
proof -
  have le: "(2::size_t) \<le> size_cv five_ints"
    by (simp add: five_ints_def)
  from first_last_views [OF le, of 4] obtain u w where
    uw: "first five_ints 2 = Inr u" "last_cv 4 five_ints 2 = Inr w"
      "size_cv u = 2" "data u = data five_ints" "size_cv w = 2"
      "data w = ptr_add 4 (data five_ints) (size_cv five_ints - 2)"
    and ix: "\<forall>i. i < 2 \<longrightarrow> index_op 4 u i = index_op 4 five_ints i \<and>
                index_op 4 w i = index_op 4 five_ints (size_cv five_ints - 2 + i)"
    by blast
  from ix have "index_op 4 u 1 = index_op 4 five_ints 1"
    and "index_op 4 w 1 = index_op 4 five_ints (size_cv five_ints - 2 + 1)"
    by simp_all
  then have "index_op 4 u 1 = Inr 4100" and "index_op 4 w 1 = Inr 4112"
    by (simp_all add: five_ints_def index_op_def ptr_add_def)
  with le uw show ?thesis
    by (auto simp: five_ints_def ptr_add_def)
qed

subsection \<open>Bytes\<close>

lemma static_size_is_extent:
  "extent_of v \<noteq> dynamic_extent \<Longrightarrow> size_cv v = extent_of v"
  by (simp add: extent_of_def size_cv_def split: storage.splits)

lemma as_bytes_Inr:
  "as_bytes sz v =
     Inr \<lparr>st = storage_ctor (as_bytes_return_size sz (extent_of v)) (size_bytes sz v),
          p_data = data v\<rparr>"
  by (auto simp: as_bytes_def ctor_count_def Let_def as_bytes_return_size_def sizeof_byte_def
        size_bytes_def static_size_is_extent)

lemma as_bytes_size:
  "storage_size (storage_ctor (as_bytes_return_size sz (extent_of v)) (size_bytes sz v)) =
     sz * size_cv v"
  by (simp add: storage_size_ctor as_bytes_return_size_def sizeof_byte_def
        size_bytes_def static_size_is_extent)

lemma as_bytes_extent:
  "extent_of \<lparr>st = storage_ctor (as_bytes_return_size sz E) n, p_data = p\<rparr> =
     as_bytes_return_size sz E"
  by (simp add: storage_ctor_def)

text \<open>
  C7. \<open>as_bytes\<close> always succeeds. The view it returns has the address of \<open>v\<close> as
  \<open>data\<close> and the element size times the size of \<open>v\<close> as \<open>size\<close> (as
  \<^verbatim>\<open>size_t\<close> values always, and as numbers whenever that many bytes fit in the
  address space). Its extent is dynamic when the extent of \<open>v\<close> is, and the element
  size times the extent of \<open>v\<close> otherwise.
\<close>

theorem as_bytes_view:
  "\<exists>b. as_bytes sz v = Inr b \<and> data b = data v \<and>
       size_cv b = sz * size_cv v \<and> size_cv b = size_bytes sz v \<and>
       extent_of b = (if extent_of v = dynamic_extent then dynamic_extent else sz * extent_of v) \<and>
       (unat sz * unat (size_cv v) < 2 ^ 64 \<longrightarrow> unat (size_cv b) = unat (size_cv v) * unat sz)"
proof -
  let ?b = "\<lparr>st = storage_ctor (as_bytes_return_size sz (extent_of v)) (size_bytes sz v),
            p_data = data v\<rparr>"
  have size: "size_cv ?b = sz * size_cv v"
    using as_bytes_size [of sz v] by (simp add: size_cv_def)
  have "unat (sz * size_cv v) = unat (size_cv v) * unat sz"
    if "unat sz * unat (size_cv v) < 2 ^ 64"
    using that by (simp add: unat_word_ariths mult.commute)
  moreover have "extent_of ?b =
      (if extent_of v = dynamic_extent then dynamic_extent else sz * extent_of v)"
    by (simp add: as_bytes_extent) (simp add: as_bytes_return_size_def sizeof_byte_def)
  ultimately show ?thesis
    using size by (intro exI [of _ ?b]) (simp add: as_bytes_Inr size_bytes_def)
qed

theorem as_bytes_view_witness:
  "unat (4::size_t) * unat (size_cv five_ints) < 2 ^ 64 \<and>
   extent_of five_ints = dynamic_extent \<and>
   (\<exists>b. as_bytes 4 five_ints = Inr b \<and> data b = 4096 \<and> size_cv b = 20 \<and>
        extent_of b = dynamic_extent \<and> unat (size_cv b) = 20) \<and>
   (\<exists>b. as_bytes 4 \<lparr>st = Static_storage 5, p_data = 4096\<rparr> = Inr b \<and> data b = 4096 \<and>
        size_cv b = 20 \<and> extent_of b = 20)"
  using as_bytes_view [of 4 five_ints] as_bytes_view [of 4 "\<lparr>st = Static_storage 5, p_data = 4096\<rparr>"]
  by (auto simp: five_ints_def)

subsection \<open>Construction from two range markers\<close>

text \<open>
  When \<open>last\<close> lies \<open>n\<close> elements after \<open>first\<close> in the same storage (the byte
  distance fits a \<^verbatim>\<open>ptrdiff_t\<close> and the addresses do not wrap), the difference of
  the two markers is \<open>n\<close> and the range constructor builds the view of \<open>n\<close> elements
  at \<open>first\<close>.
\<close>

lemma sint_small_product:
  fixes sz n :: size_t
  assumes "unat sz * unat n < 2 ^ 63"
  shows "sint (sz * n) = uint sz * uint n"
proof -
  have "unat sz * unat n < 2 ^ 64"
    using assms by simp
  then have u: "unat (sz * n) = unat sz * unat n"
    by (simp add: unat_word_ariths)
  have eq: "uint (sz * n) = int (unat sz * unat n)"
    using u by (simp only: uint_nat)
  also have "\<dots> < int (2 ^ 63)"
    using assms by (simp only: of_nat_less_iff)
  finally have lt: "uint (sz * n) < 2 ^ 63"
    by simp
  have "sint (sz * n) = signed_take_bit 63 (uint (sz * n))"
    by (simp add: sint_uint)
  also have "\<dots> = uint (sz * n)"
  proof (rule signed_take_bit_int_eq_self)
    show "- (2 ^ 63) \<le> uint (sz * n)"
      by (rule order_trans [of _ 0]) simp_all
    show "uint (sz * n) < 2 ^ 63"
      by (fact lt)
  qed
  also have "\<dots> = uint sz * uint n"
    unfolding eq of_nat_mult by (simp only: uint_nat)
  finally show ?thesis .
qed

lemma ptr_diff_ptr_add:
  assumes "0 < sz" and "unat sz * unat n < 2 ^ 63"
  shows "ptr_diff sz (ptr_add sz p n) p = n"
proof -
  have pos: "0 < uint sz"
    using assms(1) by (simp add: word_less_def)
  have "uint sz * uint n sdiv uint sz = uint sz * uint n div uint sz"
    by (simp add: signed_divide_int_eq_divide_int)
  also have "\<dots> = uint n"
    using pos by simp
  finally have "sint (sz * n) sdiv uint sz = uint n"
    by (simp only: sint_small_product [OF assms(2)])
  then show ?thesis
    by (simp add: ptr_diff_def ptr_add_def)
qed

lemma ptr_add_no_wrap:
  fixes p sz n :: size_t
  assumes "unat p + unat sz * unat n < 2 ^ 64"
  shows "p \<le> ptr_add sz p n"
proof -
  have "unat sz * unat n < 2 ^ 64"
    using assms by simp
  then have "unat (sz * n) = unat sz * unat n"
    by (simp add: unat_word_ariths)
  with assms have "unat p + unat (sz * n) < 2 ^ 64"
    by simp
  then show ?thesis
    unfolding ptr_add_def by (simp add: no_olen_add_nat)
qed

lemma ctor_range_of_ptr_add:
  assumes "0 < sz" and "unat sz * unat n < 2 ^ 63" and "unat p + unat sz * unat n < 2 ^ 64"
  shows "ctor_range sz dynamic_extent p (ptr_add sz p n) = Inr \<lparr>st = Dynamic_storage n, p_data = p\<rparr>"
  using ptr_add_no_wrap [OF assms(3)]
  by (simp add: ctor_range_def ptr_diff_ptr_add [OF assms(1,2)] ctor_count_dynamic)

lemma ctor_count_error: "ctor_count Extent p n = Inl e \<Longrightarrow> e = Assertion_failed"
  by (auto simp: ctor_count_def Let_def split: if_splits)

text \<open>
  C8. With \<open>first \<le> last\<close>, the constructor from the two markers gives what the
  constructor from \<open>first\<close> and the count \<open>last - first\<close> gives: the same view, or the
  same failure. With \<open>first > last\<close> an assertion halts it.
\<close>

theorem ctor_range_is_ctor_count:
  "ctor_range sz Extent first_p last_p =
     (if first_p \<le> last_p then ctor_count Extent first_p (ptr_diff sz last_p first_p)
      else Inl Assertion_failed)"
  by (auto simp: ctor_range_def split: sum.splits dest: ctor_count_error)

theorem ctor_range_is_ctor_count_witness:
  "(4096::pointer) \<le> 4116 \<and> \<not> (4116::pointer) \<le> 4096 \<and> ptr_diff 4 4116 4096 = 5 \<and>
   ctor_range 4 dynamic_extent 4096 4116 = ctor_count dynamic_extent 4096 5 \<and>
   ctor_range 4 dynamic_extent 4096 4116 = Inr five_ints \<and>
   ctor_range 4 dynamic_extent 4116 4096 = Inl Assertion_failed"
  using ctor_range_is_ctor_count [of 4 dynamic_extent 4096 4116]
    ctor_range_is_ctor_count [of 4 dynamic_extent 4116 4096]
  by (simp add: ptr_diff_def ctor_count_dynamic five_ints_def)

subsection \<open>The object after a call\<close>

text \<open>
  C10. After a call of any member function the object is what it was before, so its
  \<open>data\<close> and \<open>size\<close> are unchanged; the sub-range and byte operations hand their
  result back as a new view (or are halted by a failure).
\<close>

theorem invoke_frame:
  "snd (invoke sz m v) = v \<and>
   data (snd (invoke sz m v)) = data v \<and> size_cv (snd (invoke sz m v)) = size_cv v \<and>
   (m \<in> {Call_subview a b, Call_subview_static a b, Call_first a, Call_first_static a,
          Call_last a, Call_last_static a, Call_as_bytes} \<longrightarrow>
      (\<exists>u. fst (invoke sz m v) = View u) \<or> (\<exists>e. fst (invoke sz m v) = Halted e))"
  by (cases m) (auto simp: view_outcome_def split: sum.splits)

theorem invoke_frame_witness:
  "Call_subview 1 3 \<in> {Call_subview 1 3, Call_subview_static 1 3, Call_first 1, Call_first_static 1,
          Call_last 1, Call_last_static 1, Call_as_bytes} \<and>
   snd (invoke 4 (Call_subview 1 3) five_ints) = five_ints \<and>
   fst (invoke 4 (Call_subview 1 3) five_ints) = View \<lparr>st = Dynamic_storage 3, p_data = 4100\<rparr>"
  using invoke_frame [of 4 "Call_subview 1 3" five_ints 1 3]
  by (simp add: view_outcome_def subview_def ctor_count_dynamic five_ints_def ptr_add_def)

end
